theory Spec2Isabelle
  imports Main "HOL-Library.Sublist"
begin

section \<open>Strings and the case-insensitive half-length prefix test\<close>

text \<open>
  The C runtime's case folding in the "C" locale: the 26 ASCII capitals are mapped to
  their small letters, every other byte is left alone.
\<close>

definition tolower :: "char \<Rightarrow> char" where
  "tolower c =
     (case map_of (zip ''ABCDEFGHIJKLMNOPQRSTUVWXYZ'' ''abcdefghijklmnopqrstuvwxyz'') c of
        None \<Rightarrow> c
      | Some l \<Rightarrow> l)"

text \<open>
  \<open>std::string::c_str()\<close> read as a C string: the bytes in front of the first NUL.
  A string literal of the source is its own C string.
\<close>

definition c_str :: "string \<Rightarrow> string" where
  "c_str s = takeWhile (\<lambda>c. c \<noteq> CHR 0x00) s"

text \<open>
  \<open>strnicmp a b n\<close> is true exactly when \<open>_strnicmp(a, b, n)\<close> returns 0: at most
  \<open>n\<close> characters are compared after case folding, and the comparison stops where both C
  strings end. The callers only ever negate the result, so its sign is not modelled.
\<close>

fun strnicmp :: "string \<Rightarrow> string \<Rightarrow> nat \<Rightarrow> bool" where
  "strnicmp a b 0 = True"
| "strnicmp [] [] (Suc n) = True"
| "strnicmp [] (y # ys) (Suc n) = False"
| "strnicmp (x # xs) [] (Suc n) = False"
| "strnicmp (x # xs) (y # ys) (Suc n) = (tolower x = tolower y \<and> strnicmp xs ys n)"

text \<open>
  \<open>EqualInsensitive\<close> of ModelEditLanguage.cpp. The in/out parameter \<open>string1\<close> is
  returned next to the result. \<open>alternate\<close> is \<open>None\<close> for the C++ default \<open>NULL\<close>.
\<close>

definition EqualInsensitive :: "string \<Rightarrow> string \<Rightarrow> string option \<Rightarrow> bool \<times> string" where
  "EqualInsensitive string1 string2 alternate =
     (let equal = strnicmp (c_str string1) string2 (length string1);
          equal = (if equal \<and> length string1 < length string2 div 2 then False else equal);
          string1 = (if equal \<and> c_str string1 \<noteq> string2 then string2 else string1)
      in case alternate of
           None \<Rightarrow> (equal, string1)
         | Some alt \<Rightarrow>
             if \<not> equal then
               (let equal = strnicmp (c_str string1) alt (length string1);
                    equal = (if equal \<and> length string1 < length alt div 2 then False else equal);
                    string1 = (if equal then string2 else string1)
                in (equal, string1))
             else (equal, string1))"

text \<open>
  One link of the \<open>if (EqualInsensitive(name, ...)) { ... } else ...\<close> chain of
  \<open>CallFunction\<close>: the body on a match, the rest of the chain otherwise, with the
  (possibly rewritten) name passed on.
\<close>

definition on_match :: "string \<Rightarrow> string \<Rightarrow> string option \<Rightarrow> 'a \<Rightarrow> (string \<Rightarrow> 'a) \<Rightarrow> 'a" where
  "on_match name string2 alternate body rest =
     (case EqualInsensitive name string2 alternate of
        (equal, name') \<Rightarrow> if equal then body else rest name')"

section \<open>Errors\<close>

text \<open>
  Every \<open>Error(...)\<close> call of the source throws; the constructors below name the call
  sites and carry the arguments formatted into the message. \<open>NullDereference\<close> stands for
  a member access through a null pointer, \<open>OutOfFuel\<close> for an evaluation cut off by the
  recursion bound of the model.
\<close>

datatype error =
    InvalidNumberOfParameters string
  | UnknownEditorFunction string
  | ReferenceScopeError string string
  | NotSingleInput string
  | NoTarget string
  | StateError string
  | ArityError nat nat string
  | OptionalForRequired nat
  | SymbolError string string
  | SymbolMissing string string
  | SymbolNameNotValid string string
  | ScalarExpected string
  | NullDereference
  | OutOfFuel

section \<open>MEL: the role arrays\<close>

text \<open>
  The search loop of \<open>MELScript::SetProperty\<close>: the position of the first element equal to
  the node, or the length of the array when there is none (the \<open>end()\<close> iterator).
\<close>

fun find_node :: "'a \<Rightarrow> 'a list \<Rightarrow> nat" where
  "find_node nodeProp [] = 0"
| "find_node nodeProp (x # xs) = (if x = nodeProp then 0 else Suc (find_node nodeProp xs))"

definition erase :: "nat \<Rightarrow> 'a list \<Rightarrow> 'a list" where
  "erase i xs = take i xs @ drop (Suc i) xs"

definition SetProperty :: "'a \<Rightarrow> 'a list \<Rightarrow> bool \<Rightarrow> 'a list" where
  "SetProperty nodeProp propArray set_flag =
     (let found = find_node nodeProp propArray
      in if set_flag \<and> found = length propArray then propArray @ [nodeProp]
         else if \<not> set_flag \<and> found \<noteq> length propArray then erase found propArray
         else propArray)"

section \<open>MEL: the command interpreter\<close>

datatype NDLPass = ndlPassInitial | ndlPassResolve | ndlPassFinal

abbreviation ndlPassAll :: NDLPass where
  "ndlPassAll \<equiv> ndlPassFinal"

text \<open>
  Modelled from the spec: class \<open>ComputationNetwork\<close> is not among the sources. The spec
  describes it as the external graph with a name-to-node lookup and input edges; a network
  is a partial map from node names to node identities and the ordered inputs of each node.
\<close>

record ComputationNetwork =
  cn_names :: "string \<rightharpoonup> nat"
  cn_inputs :: "nat \<Rightarrow> nat list"

definition new_ComputationNetwork :: ComputationNetwork where
  "new_ComputationNetwork = \<lparr>cn_names = Map.empty, cn_inputs = (\<lambda>_. [])\<rparr>"

text \<open>\<open>NetNdl\<close> of NetworkDescriptionLanguage.h; null pointers are \<open>None\<close>.\<close>

record NetNdl =
  cn :: "ComputationNetwork option"
  ndl :: "nat option"
  lastNode :: "NDLPass \<Rightarrow> nat option"

definition NetNdl_of :: "ComputationNetwork \<Rightarrow> NetNdl" where
  "NetNdl_of p_cn = \<lparr>cn = Some p_cn, ndl = None, lastNode = (\<lambda>_. None)\<rparr>"

text \<open>
  The interpreter's state: the registry of named models, the default model (a pointer to
  a registry entry, kept as the entry's name), and \<open>world\<close>, whatever the commands whose
  code is outside the sources act on (files, dumps).
\<close>

record 'x MELScript =
  m_mapNameToNetNdl :: "string \<rightharpoonup> NetNdl"
  m_netNdlDefault :: "string option"
  world :: 'x

type_synonym 'x mel_result = "(error \<times> 'x MELScript) + 'x MELScript"

datatype mel_command =
    melLoadModel | melLoadModelWithName | melLoadNDLSnippet | melSaveDefaultModel
  | melSaveModel | melSetDefaultModel | melUnloadModel | melDumpModel | melDumpNode
  | melCopyNode | melCopySubTree | melCopyNodeInputs | melSetNodeInputs | melSetProperty
  | melSetPropertyForSubTree | melRemoveNode | melRename

text \<open>
  What \<open>CallFunction\<close> uses and the sources do not hold, taken as parameters: the
  conversion of a parameter to \<open>int\<close>, \<open>ProcessNDLScript\<close> (it runs \<open>NDLUtil\<close>),
  \<open>ComputationNode::SetInput\<close>, and the bodies of the commands that load, save, dump,
  copy, tag, remove and rename through \<open>ComputationNetwork\<close> and the helpers of
  ModelEditLanguage.h (\<open>command_body\<close>, entered once the parameter count has passed the
  check of the source).
\<close>

record 'x mel_host =
  to_int :: "string \<Rightarrow> int"
  ProcessNDLScript :: "string \<Rightarrow> NDLPass \<Rightarrow> bool \<Rightarrow> 'x MELScript \<Rightarrow> 'x mel_result"
  SetInput :: "string \<Rightarrow> nat \<Rightarrow> int \<Rightarrow> nat \<Rightarrow> 'x MELScript \<Rightarrow> 'x mel_result"
  command_body :: "mel_command \<Rightarrow> string list \<Rightarrow> 'x MELScript \<Rightarrow> 'x mel_result"

text \<open>
  Modelled from the spec: \<open>MELScript::OverrideModelNameAndSetDefaultModel\<close> is declared in
  ModelEditLanguage.h, which is not among the sources. By the spec the new network
  "becomes default (or registers under the given name)", and the registry has "one
  default entry": without a name the network is registered as that entry.
\<close>

definition OverrideModelNameAndSetDefaultModel ::
  "ComputationNetwork \<Rightarrow> string option \<Rightarrow> 'x MELScript \<Rightarrow> 'x MELScript" where
  "OverrideModelNameAndSetDefaultModel p_cn modelName st =
     (let name = (case modelName of None \<Rightarrow> ''default'' | Some n \<Rightarrow> n)
      in st\<lparr>m_mapNameToNetNdl := (m_mapNameToNetNdl st)(name \<mapsto> NetNdl_of p_cn),
            m_netNdlDefault := Some name\<rparr>)"

text \<open>
  Modelled from the spec: \<open>MELScript::FindSymbols\<close> is declared in ModelEditLanguage.h,
  which is not among the sources. By the spec a command looks its nodes up by name in the
  target network, and a "nonexistent model/node reference" is a "StateError naming the
  missing symbol"; "no default model" is a StateError as well. The result is the nodes
  found and the model they belong to.
\<close>

definition FindSymbols :: "string \<Rightarrow> 'x MELScript \<Rightarrow> error + (nat list \<times> string)" where
  "FindSymbols symbol st =
     (case m_netNdlDefault st of
        None \<Rightarrow> Inl (StateError symbol)
      | Some netNdl \<Rightarrow>
          (case m_mapNameToNetNdl st netNdl of
             None \<Rightarrow> Inl (StateError symbol)
           | Some nn \<Rightarrow>
               (case cn nn of
                  None \<Rightarrow> Inl (StateError symbol)
                | Some net \<Rightarrow>
                    (case cn_names net symbol of
                       None \<Rightarrow> Inl (StateError symbol)
                     | Some node \<Rightarrow> Inr ([node], netNdl)))))"

text \<open>The parameter-count check that opens most command bodies.\<close>

definition bad_count :: "string list \<Rightarrow> nat \<Rightarrow> nat \<Rightarrow> bool" where
  "bad_count params numFixedParams numOptionalParams \<longleftrightarrow>
     length params > numFixedParams + numOptionalParams \<or> length params < numFixedParams"

definition checked_body ::
  "'x mel_host \<Rightarrow> mel_command \<Rightarrow> nat \<Rightarrow> nat \<Rightarrow> string \<Rightarrow> string list \<Rightarrow> 'x MELScript
     \<Rightarrow> 'x mel_result" where
  "checked_body h c numFixedParams numOptionalParams usage params st =
     (if bad_count params numFixedParams numOptionalParams
      then Inl (InvalidNumberOfParameters usage, st)
      else command_body h c params st)"

text \<open>The \<open>for each\<close> loop of the \<open>SetNodeInput\<close> command over the target nodes.\<close>

fun SetInput_all ::
  "'x mel_host \<Rightarrow> string \<Rightarrow> nat list \<Rightarrow> int \<Rightarrow> nat \<Rightarrow> 'x MELScript \<Rightarrow> 'x mel_result" where
  "SetInput_all h netNdl [] inputNum nodeFrom st = Inr st"
| "SetInput_all h netNdl (node # nodes) inputNum nodeFrom st =
     (case SetInput h netNdl node inputNum nodeFrom st of
        Inl e \<Rightarrow> Inl e
      | Inr st' \<Rightarrow> SetInput_all h netNdl nodes inputNum nodeFrom st')"

definition SetNodeInput_body :: "'x mel_host \<Rightarrow> string list \<Rightarrow> 'x MELScript \<Rightarrow> 'x mel_result" where
  "SetNodeInput_body h params st =
     (if bad_count params 3 0
      then Inl (InvalidNumberOfParameters ''SetNodeInput(toNode, inputID(0-based), inputNodeName)'', st)
      else
        case FindSymbols (params ! 0) st of
          Inl e \<Rightarrow> Inl (e, st)
        | Inr (nodeTo, netNdlTo) \<Rightarrow>
           (case FindSymbols (params ! 2) st of
              Inl e \<Rightarrow> Inl (e, st)
            | Inr (nodeFrom, netNdlFrom) \<Rightarrow>
               (let inputNum = to_int h (params ! 1)
                in if netNdlTo \<noteq> netNdlFrom
                   then Inl (ReferenceScopeError (params ! 0) (params ! 2), st)
                   else if length nodeFrom \<noteq> 1 then Inl (NotSingleInput (params ! 0), st)
                   else if length nodeTo < 1 then Inl (NoTarget (params ! 2), st)
                   else
                     case ProcessNDLScript h netNdlFrom ndlPassResolve False st of
                       Inl e \<Rightarrow> Inl e
                     | Inr st' \<Rightarrow> SetInput_all h netNdlFrom nodeTo inputNum (nodeFrom ! 0) st')))"

text \<open>
  The first statement of \<open>CallFunction\<close>, an \<open>if\<close> with no \<open>else\<close>: on a match with
  \<open>CreateModel\<close> the model is created and made the default, and control goes on to the
  chain below with the rewritten name.
\<close>

definition CreateModel_step ::
  "string \<Rightarrow> string list \<Rightarrow> 'x MELScript \<Rightarrow> (error \<times> 'x MELScript) + (string \<times> 'x MELScript)" where
  "CreateModel_step name params st =
     (case EqualInsensitive name ''CreateModel'' None of
        (equal, name') \<Rightarrow>
          if equal then
            (if bad_count params 0 0
             then Inl (InvalidNumberOfParameters ''CreateModel()'', st)
             else Inr (name', OverrideModelNameAndSetDefaultModel new_ComputationNetwork None st))
          else Inr (name', st))"

text \<open>The \<open>if ... else if ... else\<close> chain that starts at \<open>CreateModelWithName\<close>.\<close>

definition command_chain ::
  "'x mel_host \<Rightarrow> string \<Rightarrow> string list \<Rightarrow> 'x MELScript \<Rightarrow> 'x mel_result" where
  "command_chain h name params st =
     on_match name ''CreateModelWithName'' None
       (if bad_count params 1 0
        then Inl (InvalidNumberOfParameters ''CreateModelWithName(modelName)'', st)
        else Inr (OverrideModelNameAndSetDefaultModel new_ComputationNetwork (Some (params ! 0)) st))
    (\<lambda>name. on_match name ''LoadModel'' None
       (checked_body h melLoadModel 1 1 ''LoadModel(modelFileName, [format=cntk])'' params st)
    (\<lambda>name. on_match name ''LoadModelWithName'' None
       (checked_body h melLoadModelWithName 2 1
          ''LoadModelWithName(modelName, modelFileName, [format=cntk])'' params st)
    (\<lambda>name. on_match name ''LoadNDLSnippet'' None
       (checked_body h melLoadNDLSnippet 2 1 ''LoadNDLSnippet(modelName, ndlsnippet)'' params st)
    (\<lambda>name. on_match name ''SaveDefaultModel'' None
       (checked_body h melSaveDefaultModel 1 1
          ''SaveDefaultModel(modelFileName, [format=cntk])'' params st)
    (\<lambda>name. on_match name ''SaveModel'' None
       (checked_body h melSaveModel 2 1
          ''SaveModel(modelName, modelFileName, [format=cntk])'' params st)
    (\<lambda>name. on_match name ''SetDefaultModel'' None
       (checked_body h melSetDefaultModel 1 0 ''SetDefaultModel(modelName)'' params st)
    (\<lambda>name. on_match name ''UnloadModel'' None
       (command_body h melUnloadModel params st)
    (\<lambda>name. on_match name ''DumpModel'' (Some ''Dump'')
       (checked_body h melDumpModel 2 1
          ''DumpNetwork(modelName, fileName, [includeData=false|true])'' params st)
    (\<lambda>name. on_match name ''DumpNode'' None
       (checked_body h melDumpNode 2 1
          ''DumpNode(nodeName, fileName, [includeData=false|true])'' params st)
    (\<lambda>name. on_match name ''CopyNode'' (Some ''Copy'')
       (checked_body h melCopyNode 2 1 ''CopyNode(fromNode, toNode, [copy=all|value])'' params st)
    (\<lambda>name. on_match name ''CopySubTree'' None
       (checked_body h melCopySubTree 3 1
          ''CopySubTree(fromNode, toNetwork, toNodeNamePrefix, [copy=all|value])'' params st)
    (\<lambda>name. on_match name ''CopyNodeInputs'' (Some ''CopyInputs'')
       (checked_body h melCopyNodeInputs 2 0 ''CopyNodeInputs(fromNode, toNode)'' params st)
    (\<lambda>name. on_match name ''SetNodeInput'' (Some ''SetInput'')
       (SetNodeInput_body h params st)
    (\<lambda>name. on_match name ''SetNodeInputs'' (Some ''SetInputs'')
       (if length params > 4 \<or> length params < 2
        then Inl (InvalidNumberOfParameters
                    ''SetNodeInputs(toNode, inputNodeName1, [inputNodeName2, inputNodeName3])'', st)
        else command_body h melSetNodeInputs params st)
    (\<lambda>name. on_match name ''SetProperty'' None
       (if length params \<noteq> 3
        then Inl (InvalidNumberOfParameters ''SetProperty(toNode, propertyName, propertyValue)'', st)
        else command_body h melSetProperty params st)
    (\<lambda>name. on_match name ''SetPropertyForSubTree'' None
       (checked_body h melSetPropertyForSubTree 3 0
          ''SetPropertyForSubTree(rootNodeName, propertyName, propertyValue)'' params st)
    (\<lambda>name. on_match name ''RemoveNode'' (Some ''Remove'')
       (command_body h melRemoveNode params st)
    (\<lambda>name. on_match name ''DeleteNode'' (Some ''Delete'')
       (command_body h melRemoveNode params st)
    (\<lambda>name. on_match name ''Rename'' None
       (checked_body h melRename 2 0 ''Rename(oldNodeName, newNodeName)'' params st)
    (\<lambda>name. Inl (UnknownEditorFunction name, st)))))))))))))))))))))"

definition CallFunction ::
  "'x mel_host \<Rightarrow> string \<Rightarrow> string list \<Rightarrow> 'x MELScript \<Rightarrow> 'x mel_result" where
  "CallFunction h p_name params st =
     (case CreateModel_step p_name params st of
        Inl e \<Rightarrow> Inl e
      | Inr (name, st') \<Rightarrow> command_chain h name params st')"

text \<open>A host for running commands on concrete input: it logs the command bodies it is asked for.\<close>

definition log_host :: "(mel_command list) mel_host" where
  "log_host =
     \<lparr>to_int = (\<lambda>_. 0),
      ProcessNDLScript = (\<lambda>_ _ _ st. Inr st),
      SetInput = (\<lambda>_ _ _ _ st. Inr st),
      command_body = (\<lambda>c _ st. Inr (st\<lparr>world := world st @ [c]\<rparr>))\<rparr>"

definition empty_MELScript :: "(mel_command list) MELScript" where
  "empty_MELScript = \<lparr>m_mapNameToNetNdl = Map.empty, m_netNdlDefault = None, world = []\<rparr>"

text \<open>A registry whose default model holds the single node \<open>A\<close> with two inputs.\<close>

definition net_A :: ComputationNetwork where
  "net_A = \<lparr>cn_names = [''A'' \<mapsto> 1], cn_inputs = (\<lambda>_. [])(1 := [2, 3])\<rparr>"

definition mel_A :: "(mel_command list) MELScript" where
  "mel_A = \<lparr>m_mapNameToNetNdl = [''default'' \<mapsto> NetNdl_of net_A],
            m_netNdlDefault = Some ''default'', world = []\<rparr>"

section \<open>NDL: nodes, scripts and symbol tables\<close>

datatype NDLType =
    ndlTypeNull | ndlTypeConstant | ndlTypeFunction | ndlTypeVariable | ndlTypeParameter
  | ndlTypeUndetermined | ndlTypeDotParameter | ndlTypeOptionalParameter | ndlTypeArray
  | ndlTypeMacroCall | ndlTypeMacro

text \<open>
  \<open>NDLNode\<close>. Pointers to nodes and scripts are their addresses (natural numbers), a
  pointer that may be null is an \<open>option\<close>. \<open>m_parameters\<close> only ever receives nodes that
  were just created, so its elements are plain addresses. \<open>m_paramString\<close> is not read by
  the functions below and is left out.
\<close>

record NDLNode =
  m_name :: string
  m_value :: string
  m_parent :: nat
  m_type :: NDLType
  m_paramMacro :: "string list"
  m_parameters :: "nat list"
  m_eval :: "nat option"
  m_script :: "nat option"

text \<open>
  \<open>NDLScript\<close>. The statement vector \<open>m_script\<close> of the class is the field
  \<open>m_statements\<close> here (the node's field of the same name keeps it). The symbol table is a
  \<open>std::map\<close> ordered by \<open>nocase_compare\<close>.

  Modelled from the spec: \<open>nocase_compare\<close> is not among the sources; by the spec the
  symbol table is a "case-insensitive name to Node map", so a symbol is stored and looked
  up under its case-folded spelling (\<open>symbol_key\<close>). A symbol may be bound to a null
  pointer.
\<close>

record NDLScript =
  m_baseName :: string
  m_statements :: "nat list"
  m_symbols :: "string \<rightharpoonup> nat option"
  m_children :: "nat list"

definition symbol_key :: "string \<Rightarrow> string" where
  "symbol_key symbol = map tolower symbol"

text \<open>
  The heap: every node and script at its address, and the state of the host evaluator.
  The global script \<open>s_global\<close> lives at address 0.
\<close>

record 'h ndl_state =
  nodes :: "nat \<Rightarrow> NDLNode"
  scripts :: "nat \<Rightarrow> NDLScript"
  host :: 'h

definition s_global :: nat where
  "s_global = 0"

type_synonym ('h, 'a) ndl_result = "(error \<times> 'h ndl_state) + ('a \<times> 'h ndl_state)"

definition SetEvalValue :: "nat \<Rightarrow> nat option \<Rightarrow> 'h ndl_state \<Rightarrow> 'h ndl_state" where
  "SetEvalValue node evalValue s = s\<lparr>nodes := (nodes s)(node := (nodes s node)\<lparr>m_eval := evalValue\<rparr>)\<rparr>"

definition SetBaseName :: "nat \<Rightarrow> string \<Rightarrow> 'h ndl_state \<Rightarrow> 'h ndl_state" where
  "SetBaseName script baseName s =
     s\<lparr>scripts := (scripts s)(script := (scripts s script)\<lparr>m_baseName := baseName\<rparr>)\<rparr>"

definition ClearEvalValues :: "nat \<Rightarrow> 'h ndl_state \<Rightarrow> 'h ndl_state" where
  "ClearEvalValues script s = fold (\<lambda>node. SetEvalValue node None) (m_children (scripts s script)) s"

text \<open>\<open>std::string::find_first_of(char)\<close>; \<open>None\<close> is \<open>npos\<close>.\<close>

definition find_first_of :: "string \<Rightarrow> char \<Rightarrow> nat option" where
  "find_first_of str c = (if c \<in> set str then Some (length (takeWhile (\<lambda>x. x \<noteq> c) str)) else None)"

text \<open>\<open>NDLScript::FindSymbol\<close> with \<open>searchForDotNames = false\<close>.\<close>

definition FindSymbol_plain :: "'h ndl_state \<Rightarrow> nat \<Rightarrow> string \<Rightarrow> nat option" where
  "FindSymbol_plain s script symbol =
     (case m_symbols (scripts s script) (symbol_key symbol) of
        None \<Rightarrow> None
      | Some found \<Rightarrow> found)"

definition FindSymbol :: "'h ndl_state \<Rightarrow> nat \<Rightarrow> string \<Rightarrow> bool \<Rightarrow> error + nat option" where
  "FindSymbol s script symbol searchForDotNames =
     (if \<not> searchForDotNames then Inr (FindSymbol_plain s script symbol)
      else
        let firstDot = find_first_of symbol CHR ''.'';
            search = (case firstDot of None \<Rightarrow> symbol | Some d \<Rightarrow> take d symbol)
        in case m_symbols (scripts s script) (symbol_key search) of
             None \<Rightarrow> Inr None
           | Some found \<Rightarrow>
              (case firstDot of
                 None \<Rightarrow> Inr found
               | Some d \<Rightarrow>
                  (case found of
                     None \<Rightarrow> Inl NullDereference
                   | Some node \<Rightarrow>
                      (case m_script (nodes s node) of
                         None \<Rightarrow> Inr found
                       | Some script' \<Rightarrow>
                           if m_type (nodes s node) \<noteq> ndlTypeMacroCall
                           then Inl (SymbolNameNotValid search symbol)
                           else Inr (FindSymbol_plain s script' (drop (Suc d) symbol))))))"

definition ExistsSymbol :: "'h ndl_state \<Rightarrow> nat \<Rightarrow> string \<Rightarrow> bool" where
  "ExistsSymbol s script symbol \<longleftrightarrow> m_symbols (scripts s script) (symbol_key symbol) \<noteq> None"

definition bind_symbol :: "nat \<Rightarrow> string \<Rightarrow> nat option \<Rightarrow> 'h ndl_state \<Rightarrow> 'h ndl_state" where
  "bind_symbol script symbol node s =
     s\<lparr>scripts := (scripts s)(script := (scripts s script)
         \<lparr>m_symbols := (m_symbols (scripts s script))(symbol_key symbol \<mapsto> node)\<rparr>)\<rparr>"

text \<open>
  \<open>NDLScript::AddSymbol\<close>. The type of the node found is read through the pointer stored
  in the table, which fails on a null binding.
\<close>

definition AddSymbol :: "nat \<Rightarrow> string \<Rightarrow> nat option \<Rightarrow> 'h ndl_state \<Rightarrow> error + 'h ndl_state" where
  "AddSymbol script symbol node s =
     (case m_symbols (scripts s script) (symbol_key symbol) of
        None \<Rightarrow> Inr (bind_symbol script symbol node s)
      | Some None \<Rightarrow> Inl NullDereference
      | Some (Some nodeFound) \<Rightarrow>
          if m_type (nodes s nodeFound) \<noteq> ndlTypeUndetermined
          then Inl (SymbolError symbol (m_value (nodes s nodeFound)))
          else Inr (bind_symbol script symbol node s))"

text \<open>
  \<open>NDLScript::AssignSymbol\<close>. The message for a missing symbol reads the value of the node
  to assign.
\<close>

definition AssignSymbol :: "nat \<Rightarrow> string \<Rightarrow> nat option \<Rightarrow> 'h ndl_state \<Rightarrow> error + 'h ndl_state" where
  "AssignSymbol script symbol node s =
     (case m_symbols (scripts s script) (symbol_key symbol) of
        None \<Rightarrow>
          (case node of
             None \<Rightarrow> Inl NullDereference
           | Some n \<Rightarrow> Inl (SymbolMissing symbol (m_value (nodes s n))))
      | Some found \<Rightarrow> Inr (bind_symbol script symbol node s))"

definition FindNode :: "'h ndl_state \<Rightarrow> nat \<Rightarrow> string \<Rightarrow> bool \<Rightarrow> error + nat option" where
  "FindNode s this name searchForDotNames =
     (case FindSymbol s (m_parent (nodes s this)) name searchForDotNames of
        Inl e \<Rightarrow> Inl e
      | Inr (Some found) \<Rightarrow> Inr (Some found)
      | Inr None \<Rightarrow> FindSymbol s s_global name searchForDotNames)"

text \<open>
  \<open>NDLNode::GetScalar\<close>. The \<open>while\<close> loop follows references for as long as it meets
  variables and parameters and has no bound of its own; it runs on fuel here. After
  the loop the name for the message is read through \<open>node\<close> before \<open>Error\<close> is called.
\<close>

fun GetScalar_loop :: "nat \<Rightarrow> 'h ndl_state \<Rightarrow> nat option \<Rightarrow> error + nat option" where
  "GetScalar_loop fuel s None = Inr None"
| "GetScalar_loop fuel s (Some node) =
     (if m_type (nodes s node) = ndlTypeVariable \<or> m_type (nodes s node) = ndlTypeParameter
         \<or> m_type (nodes s node) = ndlTypeDotParameter
      then (case fuel of
              0 \<Rightarrow> Inl OutOfFuel
            | Suc fuel' \<Rightarrow>
               (case FindNode s node (m_value (nodes s node)) True of
                  Inl e \<Rightarrow> Inl e
                | Inr node' \<Rightarrow> GetScalar_loop fuel' s node'))
      else Inr (Some node))"

definition GetScalar :: "nat \<Rightarrow> 'h ndl_state \<Rightarrow> nat \<Rightarrow> error + string" where
  "GetScalar fuel s this =
     (case GetScalar_loop fuel s (Some this) of
        Inl e \<Rightarrow> Inl e
      | Inr None \<Rightarrow> Inl NullDereference
      | Inr (Some node) \<Rightarrow>
          if m_type (nodes s node) \<noteq> ndlTypeConstant
          then Inl (ScalarExpected (m_name (nodes s node)))
          else Inr (m_value (nodes s node)))"

section \<open>NDL: macro expansion and script evaluation\<close>

text \<open>
  The host's \<open>NDLNodeEvaluator\<close>, as far as \<open>EvaluateMacro\<close> and \<open>Evaluate\<close> call it. Its
  methods are virtual; here they are arbitrary functions on the heap and the host state.
\<close>

record 'h NDLNodeEvaluator =
  ev_Evaluate :: "nat \<Rightarrow> string \<Rightarrow> NDLPass \<Rightarrow> 'h ndl_state \<Rightarrow> (error \<times> 'h ndl_state) + 'h ndl_state"
  ev_FindSymbol :: "string \<Rightarrow> 'h ndl_state \<Rightarrow> nat option"
  ev_ProcessOptionalParameters :: "nat \<Rightarrow> 'h ndl_state \<Rightarrow> (error \<times> 'h ndl_state) + 'h ndl_state"

text \<open>
  The end of one round of the parameter loop of \<open>EvaluateMacro\<close>: assign the symbol in the
  body, and copy the evaluator's handle for that name, if it has one, to the node.
\<close>

definition assign_actual ::
  "'h NDLNodeEvaluator \<Rightarrow> nat \<Rightarrow> string \<Rightarrow> nat option \<Rightarrow> 'h ndl_state
     \<Rightarrow> (error \<times> 'h ndl_state) + 'h ndl_state" where
  "assign_actual nodeEval body paramName nodeParam s =
     (case AssignSymbol body paramName nodeParam s of
        Inl e \<Rightarrow> Inl (e, s)
      | Inr s' \<Rightarrow>
         (case ev_FindSymbol nodeEval paramName s' of
            None \<Rightarrow> Inr s'
          | Some evalValue \<Rightarrow>
             (case nodeParam of
                None \<Rightarrow> Inl (NullDereference, s')
              | Some p \<Rightarrow> Inr (SetEvalValue p (Some evalValue) s'))))"

text \<open>One round of the parameter loop, for the actual parameter at index \<open>i\<close>.\<close>

definition bind_parameter ::
  "'h NDLNodeEvaluator \<Rightarrow> nat \<Rightarrow> nat \<Rightarrow> nat \<Rightarrow> nat \<Rightarrow> 'h ndl_state
     \<Rightarrow> (error \<times> 'h ndl_state) + 'h ndl_state" where
  "bind_parameter nodeEval this body i p s =
     (let paramMacro = m_paramMacro (nodes s this);
          paramName = (if i < length paramMacro then paramMacro ! i else m_name (nodes s p))
      in if m_type (nodes s p) = ndlTypeParameter
         then assign_actual nodeEval body paramName
                (FindSymbol_plain s (m_parent (nodes s this)) (m_name (nodes s p))) s
         else if m_type (nodes s p) = ndlTypeOptionalParameter
         then (if i < length paramMacro then Inl (OptionalForRequired i, s)
               else if \<not> ExistsSymbol s body paramName
               then (case AddSymbol body paramName (Some p) s of
                       Inl e \<Rightarrow> Inl (e, s)
                     | Inr s' \<Rightarrow> Inr s')
               else assign_actual nodeEval body paramName (Some p) s)
         else assign_actual nodeEval body paramName (Some p) s)"

fun bind_parameters ::
  "'h NDLNodeEvaluator \<Rightarrow> nat \<Rightarrow> nat \<Rightarrow> nat \<Rightarrow> nat list \<Rightarrow> 'h ndl_state
     \<Rightarrow> (error \<times> 'h ndl_state) + 'h ndl_state" where
  "bind_parameters nodeEval this body i [] s = Inr s"
| "bind_parameters nodeEval this body i (p # ps) s =
     (case bind_parameter nodeEval this body i p s of
        Inl e \<Rightarrow> Inl e
      | Inr s' \<Rightarrow> bind_parameters nodeEval this body (Suc i) ps s')"

text \<open>
  The end of \<open>EvaluateMacro\<close>: the symbol of the body that carries the macro's name, if
  it is bound to a node, replaces the node the body's evaluation returned; the evaluation
  handle of the result is copied to the call.
\<close>

definition macro_result :: "nat \<Rightarrow> nat option \<Rightarrow> 'h ndl_state \<Rightarrow> ('h, nat option) ndl_result" where
  "macro_result this nodeResult s =
     (case m_script (nodes s this) of
        None \<Rightarrow> Inl (NullDereference, s)
      | Some body \<Rightarrow>
         (let nodeMacroName = FindSymbol_plain s body (m_value (nodes s this));
              nodeResult = (if nodeMacroName \<noteq> None then nodeMacroName else nodeResult)
          in case nodeResult of
               None \<Rightarrow> Inr (None, s)
             | Some r \<Rightarrow> Inr (Some r, SetEvalValue this (m_eval (nodes s r)) s)))"

text \<open>
  \<open>NDLNode::EvaluateMacro\<close> and \<open>NDLScript::Evaluate\<close> call each other, and nothing in the
  source bounds the depth of macro calls: \<open>fuel\<close> is the number of nested macro bodies
  that may still be entered. \<open>Evaluate_loop\<close> is the \<open>for each\<close> loop of \<open>Evaluate\<close>
  over the statement vector as it stands when the loop starts.
\<close>

function (sequential) EvaluateMacro ::
  "'h NDLNodeEvaluator \<Rightarrow> nat \<Rightarrow> nat \<Rightarrow> string \<Rightarrow> NDLPass \<Rightarrow> 'h ndl_state
     \<Rightarrow> ('h, nat option) ndl_result"
and Evaluate ::
  "'h NDLNodeEvaluator \<Rightarrow> nat \<Rightarrow> nat \<Rightarrow> string \<Rightarrow> NDLPass \<Rightarrow> nat option \<Rightarrow> 'h ndl_state
     \<Rightarrow> ('h, nat option) ndl_result"
and Evaluate_loop ::
  "'h NDLNodeEvaluator \<Rightarrow> nat \<Rightarrow> nat list \<Rightarrow> string \<Rightarrow> NDLPass \<Rightarrow> nat option \<Rightarrow> bool
     \<Rightarrow> nat option \<Rightarrow> 'h ndl_state \<Rightarrow> ('h, nat option) ndl_result"
where
  "EvaluateMacro nodeEval fuel this baseName pass s =
     (if m_type (nodes s this) \<noteq> ndlTypeMacroCall then Inr (None, s)
      else if length (m_parameters (nodes s this)) < length (m_paramMacro (nodes s this))
      then Inl (ArityError (length (m_parameters (nodes s this)))
                  (length (m_paramMacro (nodes s this))) (m_value (nodes s this)), s)
      else
        case m_script (nodes s this) of
          None \<Rightarrow> Inl (NullDereference, s)
        | Some body \<Rightarrow>
           (case bind_parameters nodeEval this body 0 (m_parameters (nodes s this))
                   (ClearEvalValues body s) of
              Inl e \<Rightarrow> Inl e
            | Inr s1 \<Rightarrow>
               (let newBase = (if baseName \<noteq> [] then baseName @ ''.'' else baseName)
                                @ m_name (nodes s1 this)
                in case fuel of
                     0 \<Rightarrow> Inl (OutOfFuel, s1)
                   | Suc fuel' \<Rightarrow>
                      (case Evaluate nodeEval fuel' body newBase pass None s1 of
                         Inl e \<Rightarrow> Inl e
                       | Inr (nodeResult, s2) \<Rightarrow> macro_result this nodeResult s2))))"
| "Evaluate nodeEval fuel script baseName pass skipThrough s =
     (let nodeLast = skipThrough;
          skip = (skipThrough \<noteq> None);
          prevBaseName = m_baseName (scripts s script);
          s1 = SetBaseName script baseName s
      in case Evaluate_loop nodeEval fuel (m_statements (scripts s1 script)) baseName pass
                skipThrough skip nodeLast s1 of
           Inl e \<Rightarrow> Inl e
         | Inr (nodeLast, s2) \<Rightarrow> Inr (nodeLast, SetBaseName script prevBaseName s2))"
| "Evaluate_loop nodeEval fuel [] baseName pass skipThrough skip nodeLast s = Inr (nodeLast, s)"
| "Evaluate_loop nodeEval fuel (node # rest) baseName pass skipThrough skip nodeLast s =
     (if skip
      then Evaluate_loop nodeEval fuel rest baseName pass skipThrough
             (if Some node = skipThrough then False else skip) nodeLast s
      else if m_type (nodes s node) = ndlTypeMacroCall
      then (case EvaluateMacro nodeEval fuel node baseName pass s of
              Inl e \<Rightarrow> Inl e
            | Inr (r, s1) \<Rightarrow>
               (case ev_ProcessOptionalParameters nodeEval node s1 of
                  Inl e \<Rightarrow> Inl e
                | Inr s2 \<Rightarrow>
                    Evaluate_loop nodeEval fuel rest baseName pass skipThrough skip (Some node) s2))
      else (case ev_Evaluate nodeEval node baseName pass s of
              Inl e \<Rightarrow> Inl e
            | Inr s1 \<Rightarrow>
                Evaluate_loop nodeEval fuel rest baseName pass skipThrough skip (Some node) s1))"
  by pat_completeness auto
termination
  by (relation "measures
        [\<lambda>x. case x of Inl (_, fuel, _) \<Rightarrow> fuel
                  | Inr (Inl (_, fuel, _)) \<Rightarrow> fuel
                  | Inr (Inr (_, fuel, _)) \<Rightarrow> fuel,
         \<lambda>x. case x of Inl _ \<Rightarrow> 0 | Inr (Inl _) \<Rightarrow> 2 | Inr (Inr _) \<Rightarrow> 1,
         \<lambda>x. case x of Inl _ \<Rightarrow> 0 | Inr (Inl _) \<Rightarrow> 0
                  | Inr (Inr (_, _, stmts, _)) \<Rightarrow> length stmts]") auto

declare EvaluateMacro.simps [simp del] Evaluate.simps [simp del]

section \<open>The evaluation loop as the spec describes it\<close>

text \<open>
  The spec's account of \<open>Evaluate\<close>: the statements that are run are all of them, or those
  after the first occurrence of \<open>skipThrough\<close>; each is dispatched by its kind; they are
  run in order; the node returned is the last one run, or \<open>skipThrough\<close> when none was.
\<close>

definition spec_remaining :: "nat list \<Rightarrow> nat option \<Rightarrow> nat list" where
  "spec_remaining statements skipThrough =
     (case skipThrough of
        None \<Rightarrow> statements
      | Some k \<Rightarrow> drop 1 (dropWhile (\<lambda>n. n \<noteq> k) statements))"

definition spec_dispatch ::
  "'h NDLNodeEvaluator \<Rightarrow> nat \<Rightarrow> nat \<Rightarrow> string \<Rightarrow> NDLPass \<Rightarrow> 'h ndl_state
     \<Rightarrow> (error \<times> 'h ndl_state) + 'h ndl_state" where
  "spec_dispatch nodeEval fuel node baseName pass s =
     (if m_type (nodes s node) = ndlTypeMacroCall
      then (case EvaluateMacro nodeEval fuel node baseName pass s of
              Inl e \<Rightarrow> Inl e
            | Inr (r, s') \<Rightarrow> ev_ProcessOptionalParameters nodeEval node s')
      else ev_Evaluate nodeEval node baseName pass s)"

fun spec_run ::
  "'h NDLNodeEvaluator \<Rightarrow> nat \<Rightarrow> nat list \<Rightarrow> string \<Rightarrow> NDLPass \<Rightarrow> 'h ndl_state
     \<Rightarrow> (error \<times> 'h ndl_state) + 'h ndl_state" where
  "spec_run nodeEval fuel [] baseName pass s = Inr s"
| "spec_run nodeEval fuel (node # rest) baseName pass s =
     (case spec_dispatch nodeEval fuel node baseName pass s of
        Inl e \<Rightarrow> Inl e
      | Inr s' \<Rightarrow> spec_run nodeEval fuel rest baseName pass s')"

definition Evaluate_spec ::
  "'h NDLNodeEvaluator \<Rightarrow> nat \<Rightarrow> nat \<Rightarrow> string \<Rightarrow> NDLPass \<Rightarrow> nat option \<Rightarrow> 'h ndl_state
     \<Rightarrow> ('h, nat option) ndl_result" where
  "Evaluate_spec nodeEval fuel script baseName pass skipThrough s =
     (let todo = spec_remaining (m_statements (scripts s script)) skipThrough
      in case spec_run nodeEval fuel todo baseName pass (SetBaseName script baseName s) of
           Inl e \<Rightarrow> Inl e
         | Inr s' \<Rightarrow>
             Inr (if todo = [] then skipThrough else Some (last todo),
                  SetBaseName script (m_baseName (scripts s script)) s'))"

section \<open>A small script to run the definitions on\<close>

text \<open>
  The script \<open>a = b; c = 3; h = Sigmoid(u); y = foo(1, d = 7); o = Softmax(y)\<close> (script 1)
  and the script \<open>w = foo(); v = bar(1)\<close> (script 4), with the macros
  \<open>foo(x) = [ d = 5; z = Plus(x, d) ]\<close> (body: script 2) and
  \<open>bar(x) = [ bar = Plus(x, x); t = Times(bar, x) ]\<close> (body: script 3), as \<open>ParseValue\<close>
  leaves them: every name is in the symbol table of its script, and the statement vector
  of a script holds its calls only, since a variable or a constant is never pushed onto
  it. \<open>u\<close> is a forward reference. The evaluator records what it is asked to do.
\<close>

datatype event = Evaluated nat | OptionalProcessed nat

definition trace_evaluator :: "(event list) NDLNodeEvaluator" where
  "trace_evaluator =
     \<lparr>ev_Evaluate = (\<lambda>node _ _ s. Inr (s\<lparr>host := host s @ [Evaluated node]\<rparr>)),
      ev_FindSymbol = (\<lambda>_ _. None),
      ev_ProcessOptionalParameters = (\<lambda>node s. Inr (s\<lparr>host := host s @ [OptionalProcessed node]\<rparr>))\<rparr>"

definition mk_node :: "string \<Rightarrow> string \<Rightarrow> nat \<Rightarrow> NDLType \<Rightarrow> NDLNode" where
  "mk_node name val parent ty =
     \<lparr>m_name = name, m_value = val, m_parent = parent, m_type = ty, m_paramMacro = [],
      m_parameters = [], m_eval = None, m_script = None\<rparr>"

definition demo_nodes :: "nat \<Rightarrow> NDLNode" where
  "demo_nodes =
     (\<lambda>_. mk_node [] [] 0 ndlTypeNull)
     (10 := mk_node ''x'' ''x'' 2 ndlTypeParameter,
      11 := (mk_node ''z'' ''Plus'' 2 ndlTypeFunction)\<lparr>m_parameters := [10, 12]\<rparr>,
      12 := mk_node ''d'' ''5'' 2 ndlTypeConstant,
      13 := (mk_node ''t'' ''Times'' 3 ndlTypeFunction)\<lparr>m_parameters := [14, 15]\<rparr>,
      14 := (mk_node ''bar'' ''Plus'' 3 ndlTypeFunction)\<lparr>m_parameters := [15, 15]\<rparr>,
      15 := mk_node ''x'' ''x'' 3 ndlTypeParameter,
      20 := mk_node ''unnamed1'' ''1'' 1 ndlTypeConstant,
      21 := mk_node ''d'' ''7'' 1 ndlTypeOptionalParameter,
      22 := (mk_node ''y'' ''foo'' 1 ndlTypeMacroCall)
              \<lparr>m_paramMacro := [''x''], m_parameters := [20, 21], m_script := Some 2\<rparr>,
      23 := mk_node ''a'' ''b'' 1 ndlTypeVariable,
      24 := mk_node ''c'' ''3'' 1 ndlTypeConstant,
      25 := mk_node ''u'' ''u'' 1 ndlTypeUndetermined,
      26 := (mk_node ''w'' ''foo'' 4 ndlTypeMacroCall)
              \<lparr>m_paramMacro := [''x''], m_parameters := [], m_script := Some 2\<rparr>,
      27 := (mk_node ''v'' ''bar'' 4 ndlTypeMacroCall)
              \<lparr>m_paramMacro := [''x''], m_parameters := [32], m_script := Some 3\<rparr>,
      28 := (mk_node ''h'' ''Sigmoid'' 1 ndlTypeFunction)\<lparr>m_parameters := [25]\<rparr>,
      29 := (mk_node ''o'' ''Softmax'' 1 ndlTypeFunction)\<lparr>m_parameters := [22]\<rparr>,
      30 := (mk_node ''foo'' ''(x)'' 0 ndlTypeMacro)
              \<lparr>m_paramMacro := [''x''], m_parameters := [10], m_script := Some 2\<rparr>,
      31 := (mk_node ''bar'' ''(x)'' 0 ndlTypeMacro)
              \<lparr>m_paramMacro := [''x''], m_parameters := [15], m_script := Some 3\<rparr>,
      32 := mk_node ''unnamed2'' ''1'' 4 ndlTypeConstant)"

definition demo_scripts :: "nat \<Rightarrow> NDLScript" where
  "demo_scripts =
     (\<lambda>_. \<lparr>m_baseName = [], m_statements = [], m_symbols = Map.empty, m_children = []\<rparr>)
     (0 := \<lparr>m_baseName = [], m_statements = [],
            m_symbols = [''foo'' \<mapsto> Some 30, ''bar'' \<mapsto> Some 31], m_children = [30, 31]\<rparr>,
      1 := \<lparr>m_baseName = [], m_statements = [28, 22, 29],
            m_symbols = [''a'' \<mapsto> Some 23, ''c'' \<mapsto> Some 24, ''u'' \<mapsto> Some 25,
                         ''h'' \<mapsto> Some 28, ''y'' \<mapsto> Some 22, ''o'' \<mapsto> Some 29],
            m_children = [23, 24, 28, 25, 22, 20, 21, 29]\<rparr>,
      2 := \<lparr>m_baseName = [], m_statements = [11],
            m_symbols = [''x'' \<mapsto> Some 10, ''d'' \<mapsto> Some 12, ''z'' \<mapsto> Some 11],
            m_children = [10, 12, 11]\<rparr>,
      3 := \<lparr>m_baseName = [], m_statements = [14, 13],
            m_symbols = [''x'' \<mapsto> Some 15, ''bar'' \<mapsto> Some 14, ''t'' \<mapsto> Some 13],
            m_children = [15, 14, 13]\<rparr>,
      4 := \<lparr>m_baseName = [], m_statements = [26, 27],
            m_symbols = [''w'' \<mapsto> Some 26, ''v'' \<mapsto> Some 27],
            m_children = [26, 27, 32]\<rparr>)"

definition demo_state :: "(event list) ndl_state" where
  "demo_state = \<lparr>nodes = demo_nodes, scripts = demo_scripts, host = []\<rparr>"

definition returned :: "('h, 'a) ndl_result \<Rightarrow> 'a option" where
  "returned r = (case r of Inl _ \<Rightarrow> None | Inr (x, _) \<Rightarrow> Some x)"

definition trace_of :: "('h, 'a) ndl_result \<Rightarrow> 'h option" where
  "trace_of r = (case r of Inl _ \<Rightarrow> None | Inr (_, s) \<Rightarrow> Some (host s))"

definition symbol_after :: "('h, 'a) ndl_result \<Rightarrow> nat \<Rightarrow> string \<Rightarrow> nat option option" where
  "symbol_after r script symbol =
     (case r of Inl _ \<Rightarrow> None | Inr (_, s) \<Rightarrow> Some (FindSymbol_plain s script symbol))"

definition raised :: "('h, 'a) ndl_result \<Rightarrow> error option" where
  "raised r = (case r of Inl (e, _) \<Rightarrow> Some e | Inr _ \<Rightarrow> None)"

section \<open>Properties\<close>

subsection \<open>Helper facts\<close>

lemma c_str_id: "CHR 0x00 \<notin> set s \<Longrightarrow> c_str s = s"
  by (auto simp: c_str_def)

lemma strnicmp_prefix:
  "strnicmp a b (length a) \<longleftrightarrow> prefix (map tolower a) (map tolower b)"
  by (induction a arbitrary: b) (case_tac b; simp)+

lemma find_node_le: "find_node n xs \<le> length xs"
  by (induction xs) auto

lemma find_node_end: "find_node n xs = length xs \<longleftrightarrow> n \<notin> set xs"
proof (induction xs)
  case Nil
  show ?case by simp
next
  case (Cons x xs)
  have "find_node n xs \<le> length xs" by (rule find_node_le)
  with Cons show ?case by auto
qed

lemma erase_find_node: "erase (find_node n xs) xs = remove1 n xs"
  by (induction xs) (auto simp: erase_def)

lemma SetProperty_set: "SetProperty n xs True = (if n \<in> set xs then xs else xs @ [n])"
  by (simp add: SetProperty_def find_node_end)

lemma SetProperty_clear: "SetProperty n xs False = remove1 n xs"
  by (simp add: SetProperty_def find_node_end erase_find_node remove1_idem)

lemma count_remove1: "count_list (remove1 n xs) n = count_list xs n - 1"
  by (induction xs) auto

lemma count_0: "count_list xs n = 0 \<longleftrightarrow> n \<notin> set xs"
  by (induction xs) auto

lemma chain_SetNodeInput:
  "CallFunction h ''SetNodeInput'' params st = SetNodeInput_body h params st"
  by (simp add: CallFunction_def CreateModel_step_def command_chain_def on_match_def
        EqualInsensitive_def tolower_def c_str_def)

lemma FindSymbol_plain_bind:
  "FindSymbol_plain (bind_symbol script symbol node s) script symbol = node"
  by (simp add: FindSymbol_plain_def bind_symbol_def)

lemma FindSymbol_plain_SetEvalValue:
  "FindSymbol_plain (SetEvalValue n v s) script symbol = FindSymbol_plain s script symbol"
  by (simp add: FindSymbol_plain_def SetEvalValue_def)

lemma Evaluate_loop_run:
  "Evaluate_loop nodeEval fuel xs baseName pass skipThrough False nodeLast s =
     (case spec_run nodeEval fuel xs baseName pass s of
        Inl e \<Rightarrow> Inl e
      | Inr s' \<Rightarrow> Inr (if xs = [] then nodeLast else Some (last xs), s'))"
proof (induction xs arbitrary: nodeLast s)
  case Nil
  show ?case by simp
next
  case (Cons x xs)
  show ?case
    by (simp add: Cons.IH spec_dispatch_def split: sum.splits prod.splits)
qed

lemma Evaluate_loop_skip:
  "Evaluate_loop nodeEval fuel xs baseName pass (Some k) True nodeLast s =
     Evaluate_loop nodeEval fuel (drop 1 (dropWhile (\<lambda>n. n \<noteq> k) xs)) baseName pass (Some k)
       False nodeLast s"
  by (induction xs) simp_all

lemma Evaluate_returns_last:
  assumes "Evaluate nodeEval fuel script baseName pass None s = Inr (r, s')"
  shows "r = (if m_statements (scripts s script) = [] then None
              else Some (last (m_statements (scripts s script))))"
  using assms
  by (auto simp: Evaluate.simps Evaluate_loop_run SetBaseName_def
        split: sum.splits prod.splits if_splits)

lemma macro_result_iff:
  "macro_result this nodeLast s2 = Inr (r, s') \<longleftrightarrow>
     (\<exists>body2. m_script (nodes s2 this) = Some body2
        \<and> r = (case FindSymbol_plain s2 body2 (m_value (nodes s2 this)) of
                 Some nodeMacroName \<Rightarrow> Some nodeMacroName
               | None \<Rightarrow> nodeLast)
        \<and> s' = (case r of None \<Rightarrow> s2 | Some x \<Rightarrow> SetEvalValue this (m_eval (nodes s2 x)) s2))"
  by (auto simp: macro_result_def Let_def split: option.splits)

lemma EvaluateMacro_call_iff:
  assumes "m_type (nodes s this) = ndlTypeMacroCall"
  shows "EvaluateMacro nodeEval fuel this baseName pass s = Inr (r, s') \<longleftrightarrow>
     (\<not> length (m_parameters (nodes s this)) < length (m_paramMacro (nodes s this))
      \<and> (\<exists>body s1 fuel' nodeLast s2.
           m_script (nodes s this) = Some body
         \<and> bind_parameters nodeEval this body 0 (m_parameters (nodes s this))
               (ClearEvalValues body s) = Inr s1
         \<and> fuel = Suc fuel'
         \<and> Evaluate nodeEval fuel' body
               ((if baseName \<noteq> [] then baseName @ ''.'' else baseName) @ m_name (nodes s1 this))
               pass None s1 = Inr (nodeLast, s2)
         \<and> macro_result this nodeLast s2 = Inr (r, s')))"
  using assms
  by (cases fuel)
     (auto simp: EvaluateMacro.simps Let_def split: option.splits sum.splits)

subsection \<open>C1: CreateModel without arguments\<close>

text \<open>
  C1. \<open>CreateModel()\<close> creates an empty network and makes it the default, but the command
  does not complete: the \<open>if\<close> that handles it is not joined to the chain by an \<open>else\<close>, the
  name (by now \<open>CreateModel\<close>) is a long enough prefix of \<open>CreateModelWithName\<close>, and that
  branch rejects the empty parameter list. The state at the throw holds the new default
  model.
\<close>

theorem CreateModel_no_arguments_raises:
  "CallFunction h ''CreateModel'' [] st =
     Inl (InvalidNumberOfParameters ''CreateModelWithName(modelName)'',
          OverrideModelNameAndSetDefaultModel new_ComputationNetwork None st)"
  by (simp add: CallFunction_def CreateModel_step_def command_chain_def on_match_def
        EqualInsensitive_def tolower_def c_str_def bad_count_def)

subsection \<open>C2: too few parameters in a macro call\<close>

text \<open>
  C2, as amended. A macro call with fewer actual parameters than the macro has formal
  ones raises the arity error, which carries the number supplied, the number expected and
  the macro's name; the heap is as it was, so no evaluation handle was cleared and nothing
  of the body was evaluated.
\<close>

theorem EvaluateMacro_too_few:
  assumes "m_type (nodes s this) = ndlTypeMacroCall"
    and "length (m_parameters (nodes s this)) < length (m_paramMacro (nodes s this))"
  shows "EvaluateMacro nodeEval fuel this baseName pass s =
           Inl (ArityError (length (m_parameters (nodes s this)))
                  (length (m_paramMacro (nodes s this))) (m_value (nodes s this)), s)"
  using assms by (simp add: EvaluateMacro.simps)

theorem EvaluateMacro_too_few_witness:
  "m_type (nodes demo_state 26) = ndlTypeMacroCall
   \<and> length (m_parameters (nodes demo_state 26)) < length (m_paramMacro (nodes demo_state 26))
   \<and> EvaluateMacro trace_evaluator 1 26 [] ndlPassInitial demo_state
       = Inl (ArityError 0 1 ''foo'', demo_state)"
proof -
  have t: "m_type (nodes demo_state 26) = ndlTypeMacroCall"
    by (simp add: demo_state_def demo_nodes_def mk_node_def)
  have l: "length (m_parameters (nodes demo_state 26)) < length (m_paramMacro (nodes demo_state 26))"
    by (simp add: demo_state_def demo_nodes_def mk_node_def)
  have v: "length (m_parameters (nodes demo_state 26)) = 0
           \<and> length (m_paramMacro (nodes demo_state 26)) = 1
           \<and> m_value (nodes demo_state 26) = ''foo''"
    by (simp add: demo_state_def demo_nodes_def mk_node_def)
  from EvaluateMacro_too_few [OF t l, of trace_evaluator 1 "[]" ndlPassInitial] t l v
  show ?thesis by simp
qed

text \<open>
  C2, the claim as first stated, fails for too many parameters: the call \<open>y = foo(1, d = 7)\<close>
  supplies two parameters to a macro with one formal parameter, no error is raised and
  the statement of the body is evaluated.
\<close>

theorem surplus_optional_parameter_accepted:
  "length (m_parameters (nodes demo_state 22)) = 2
   \<and> length (m_paramMacro (nodes demo_state 22)) = 1
   \<and> raised (EvaluateMacro trace_evaluator 1 22 [] ndlPassInitial demo_state) = None
   \<and> trace_of (EvaluateMacro trace_evaluator 1 22 [] ndlPassInitial demo_state)
       = Some [Evaluated 11]"
  by code_simp

subsection \<open>C3: an optional parameter and a symbol of the body\<close>

text \<open>
  C3, as amended. An optional actual parameter that stands after the formal parameters
  ends up bound in the body's scope under its own name, whether or not the scope held
  that name before: a missing symbol is added, an existing one is assigned the
  parameter's node.
\<close>

theorem optional_parameter_rebinds:
  assumes "m_type (nodes s p) = ndlTypeOptionalParameter"
    and "\<not> i < length (m_paramMacro (nodes s this))"
  shows "\<exists>s'. bind_parameter nodeEval this body i p s = Inr s'
              \<and> FindSymbol_plain s' body (m_name (nodes s p)) = Some p"
proof (cases "ExistsSymbol s body (m_name (nodes s p))")
  case True
  then obtain found where
    f: "m_symbols (scripts s body) (symbol_key (m_name (nodes s p))) = Some found"
    by (auto simp: ExistsSymbol_def)
  show ?thesis
    using assms True f
    by (cases "ev_FindSymbol nodeEval (m_name (nodes s p))
                 (bind_symbol body (m_name (nodes s p)) (Some p) s)")
       (simp_all add: bind_parameter_def Let_def assign_actual_def AssignSymbol_def
          FindSymbol_plain_bind FindSymbol_plain_SetEvalValue)
next
  case False
  then have f: "m_symbols (scripts s body) (symbol_key (m_name (nodes s p))) = None"
    by (simp add: ExistsSymbol_def)
  show ?thesis
    using assms False f
    by (simp add: bind_parameter_def AddSymbol_def FindSymbol_plain_bind)
qed

theorem optional_parameter_rebinds_witness:
  "m_type (nodes demo_state 21) = ndlTypeOptionalParameter
   \<and> \<not> 1 < length (m_paramMacro (nodes demo_state 22))
   \<and> FindSymbol_plain demo_state 2 ''d'' = Some 12
   \<and> (\<exists>s'. bind_parameter trace_evaluator 22 2 1 21 demo_state = Inr s'
             \<and> FindSymbol_plain s' 2 ''d'' = Some 21)"
proof -
  have t: "m_type (nodes demo_state 21) = ndlTypeOptionalParameter"
    by (simp add: demo_state_def demo_nodes_def mk_node_def)
  have l: "\<not> 1 < length (m_paramMacro (nodes demo_state 22))"
    by (simp add: demo_state_def demo_nodes_def mk_node_def)
  have n: "m_name (nodes demo_state 21) = ''d''"
    by (simp add: demo_state_def demo_nodes_def mk_node_def)
  have b: "FindSymbol_plain demo_state 2 ''d'' = Some 12"
    by (simp add: FindSymbol_plain_def demo_state_def demo_scripts_def symbol_key_def tolower_def)
  from optional_parameter_rebinds [OF t l, of trace_evaluator 2] t l b
  show ?thesis unfolding n by simp
qed

text \<open>
  C3, the claim as first stated, fails: the body of \<open>foo\<close> binds \<open>d\<close> to its own constant
  (node 12); after the call \<open>foo(1, d = 7)\<close> the body binds \<open>d\<close> to the optional parameter
  of the call (node 21).
\<close>

theorem optional_parameter_overrides_default:
  "m_type (nodes demo_state 21) = ndlTypeOptionalParameter
   \<and> m_name (nodes demo_state 21) = ''d''
   \<and> FindSymbol_plain demo_state 2 ''d'' = Some 12
   \<and> symbol_after (EvaluateMacro trace_evaluator 1 22 [] ndlPassInitial demo_state) 2 ''d''
       = Some (Some 21)"
  by code_simp

subsection \<open>C4: SetNodeInput with an undefined input node\<close>

text \<open>
  C4. When the default model's network defines the node \<open>A\<close> and not \<open>B\<close>, the command
  \<open>SetNodeInput(A, i, B)\<close> raises the state error that names \<open>B\<close>, and the interpreter state
  at the throw is the state before the command: no input edge of any node has changed.
\<close>

theorem SetNodeInput_missing_input:
  assumes "m_netNdlDefault st = Some d" and "m_mapNameToNetNdl st d = Some nn"
    and "cn nn = Some net" and "cn_names net A = Some a" and "cn_names net B = None"
  shows "CallFunction h ''SetNodeInput'' [A, i, B] st = Inl (StateError B, st)"
proof -
  have a: "FindSymbols A st = Inr ([a], d)"
    using assms by (simp add: FindSymbols_def)
  have b: "FindSymbols B st = Inl (StateError B)"
    using assms by (simp add: FindSymbols_def)
  show ?thesis
    by (simp add: chain_SetNodeInput SetNodeInput_body_def bad_count_def a b)
qed

theorem SetNodeInput_missing_input_witness:
  "cn_names net_A ''A'' = Some 1 \<and> cn_names net_A ''B'' = None
   \<and> cn_inputs net_A 1 = [2, 3]
   \<and> CallFunction log_host ''SetNodeInput'' [''A'', ''0'', ''B''] mel_A
       = Inl (StateError ''B'', mel_A)"
proof -
  have 1: "m_netNdlDefault mel_A = Some ''default''" by (simp add: mel_A_def)
  have 2: "m_mapNameToNetNdl mel_A ''default'' = Some (NetNdl_of net_A)" by (simp add: mel_A_def)
  have 3: "cn (NetNdl_of net_A) = Some net_A" by (simp add: NetNdl_of_def)
  have 4: "cn_names net_A ''A'' = Some 1" by (simp add: net_A_def)
  have 5: "cn_names net_A ''B'' = None" by (simp add: net_A_def)
  have 6: "cn_inputs net_A 1 = [2, 3]" by (simp add: net_A_def)
  from SetNodeInput_missing_input [OF 1 2 3 4 5, of log_host "''0''"] 4 5 6
  show ?thesis by simp
qed

subsection \<open>C5: the half-length prefix rule and its alias\<close>

text \<open>
  C5, as amended. A token without NUL bytes matches a command name exactly when it is a
  case-insensitive prefix of the name and at least \<open>length name div 2\<close> long, or when an
  alias is given and the token is a case-insensitive prefix of the alias and at least
  \<open>length alias div 2\<close> long. Against the name \<open>DumpModel\<close> alone the token \<open>Du\<close> does
  not match and \<open>Dump\<close> does, and \<open>CallFunction\<close> runs the DumpModel command for \<open>Dump\<close>.
\<close>

theorem EqualInsensitive_half_prefix:
  "(CHR 0x00 \<notin> set tok \<longrightarrow>
      (fst (EqualInsensitive tok name alternate) \<longleftrightarrow>
         (prefix (map tolower tok) (map tolower name) \<and> length name div 2 \<le> length tok)
       \<or> (\<exists>alt. alternate = Some alt \<and> prefix (map tolower tok) (map tolower alt)
                \<and> length alt div 2 \<le> length tok)))
   \<and> \<not> fst (EqualInsensitive ''Du'' ''DumpModel'' None)
   \<and> EqualInsensitive ''Dump'' ''DumpModel'' None = (True, ''DumpModel'')
   \<and> CallFunction h ''Dump'' params st =
       checked_body h melDumpModel 2 1
         ''DumpNetwork(modelName, fileName, [includeData=false|true])'' params st"
proof -
  have a: "CHR 0x00 \<notin> set tok \<longrightarrow>
      (fst (EqualInsensitive tok name alternate) \<longleftrightarrow>
         (prefix (map tolower tok) (map tolower name) \<and> length name div 2 \<le> length tok)
       \<or> (\<exists>alt. alternate = Some alt \<and> prefix (map tolower tok) (map tolower alt)
                \<and> length alt div 2 \<le> length tok))"
    by (auto simp: EqualInsensitive_def Let_def c_str_id strnicmp_prefix split: option.splits)
  have b: "\<not> fst (EqualInsensitive ''Du'' ''DumpModel'' None)"
    by (simp add: EqualInsensitive_def tolower_def c_str_def)
  have c: "EqualInsensitive ''Dump'' ''DumpModel'' None = (True, ''DumpModel'')"
    by (simp add: EqualInsensitive_def tolower_def c_str_def)
  have d: "CallFunction h ''Dump'' params st =
       checked_body h melDumpModel 2 1
         ''DumpNetwork(modelName, fileName, [includeData=false|true])'' params st"
    by (simp add: CallFunction_def CreateModel_step_def command_chain_def on_match_def
          EqualInsensitive_def tolower_def c_str_def)
  from a b c d show ?thesis by blast
qed

theorem EqualInsensitive_half_prefix_witness:
  "CHR 0x00 \<notin> set ''Cop''
   \<and> fst (EqualInsensitive ''Cop'' ''CopyNode'' (Some ''Copy''))
   \<and> \<not> length ''CopyNode'' div 2 \<le> length ''Cop''
   \<and> prefix (map tolower ''Cop'') (map tolower ''Copy'')
   \<and> length ''Copy'' div 2 \<le> length ''Cop''"
proof -
  have h: "CHR 0x00 \<notin> set ''Cop''" by simp
  have p: "prefix (map tolower ''Cop'') (map tolower ''Copy'')
           \<and> length ''Copy'' div 2 \<le> length ''Cop''
           \<and> \<not> length ''CopyNode'' div 2 \<le> length ''Cop''"
    by (simp add: tolower_def)
  from EqualInsensitive_half_prefix
         [of "''Cop''" "''CopyNode''" "Some ''Copy''" log_host "[]" empty_MELScript] h p
  show ?thesis by blast
qed

text \<open>
  C5, the claim as first stated, fails: the dispatch tests \<open>DumpModel\<close> with the alias \<open>Dump\<close>,
  the token \<open>Du\<close> is half of the alias, and so \<open>Du\<close> runs the DumpModel command although
  it is shorter than half of \<open>DumpModel\<close>.
\<close>

theorem Du_resolves_to_DumpModel:
  "EqualInsensitive ''Du'' ''DumpModel'' (Some ''Dump'') = (True, ''DumpModel'')
   \<and> \<not> length ''DumpModel'' div 2 \<le> length ''Du''
   \<and> CallFunction log_host ''Du'' [''m'', ''f''] empty_MELScript
       = Inr (empty_MELScript\<lparr>world := [melDumpModel]\<rparr>)"
  by (simp add: CallFunction_def CreateModel_step_def command_chain_def on_match_def
        EqualInsensitive_def tolower_def c_str_def checked_body_def bad_count_def
        log_host_def empty_MELScript_def)

subsection \<open>C6: the node a macro call returns\<close>

text \<open>
  C6. The evaluation of a macro call returns a node \<open>r\<close> (and the heap \<open>s'\<close>) exactly when
  enough parameters were supplied, their binding succeeded, there was fuel to enter the
  body, and the body's evaluation returned; the body returns its last statement (nothing,
  if it has none), and \<open>r\<close> is the node bound under the macro's own name in the body's
  symbol table after that evaluation if there is one, and the node the body returned
  otherwise.
\<close>

theorem EvaluateMacro_result:
  assumes "m_type (nodes s this) = ndlTypeMacroCall"
  shows "EvaluateMacro nodeEval fuel this baseName pass s = Inr (r, s') \<longleftrightarrow>
     (\<not> length (m_parameters (nodes s this)) < length (m_paramMacro (nodes s this))
      \<and> (\<exists>body s1 fuel' nodeLast s2 body2.
           m_script (nodes s this) = Some body
         \<and> bind_parameters nodeEval this body 0 (m_parameters (nodes s this))
               (ClearEvalValues body s) = Inr s1
         \<and> fuel = Suc fuel'
         \<and> Evaluate nodeEval fuel' body
               ((if baseName \<noteq> [] then baseName @ ''.'' else baseName) @ m_name (nodes s1 this))
               pass None s1 = Inr (nodeLast, s2)
         \<and> nodeLast = (if m_statements (scripts s1 body) = [] then None
                         else Some (last (m_statements (scripts s1 body))))
         \<and> m_script (nodes s2 this) = Some body2
         \<and> r = (case FindSymbol_plain s2 body2 (m_value (nodes s2 this)) of
                   Some nodeMacroName \<Rightarrow> Some nodeMacroName
                 | None \<Rightarrow> nodeLast)
         \<and> s' = (case r of None \<Rightarrow> s2
                  | Some x \<Rightarrow> SetEvalValue this (m_eval (nodes s2 x)) s2)))"
  (is "?L \<longleftrightarrow> ?R")
proof
  assume ?L
  then obtain body s1 fuel' nodeLast s2 where
    few: "\<not> length (m_parameters (nodes s this)) < length (m_paramMacro (nodes s this))"
    and b: "m_script (nodes s this) = Some body"
    and p: "bind_parameters nodeEval this body 0 (m_parameters (nodes s this))
               (ClearEvalValues body s) = Inr s1"
    and f: "fuel = Suc fuel'"
    and e: "Evaluate nodeEval fuel' body
               ((if baseName \<noteq> [] then baseName @ ''.'' else baseName) @ m_name (nodes s1 this))
               pass None s1 = Inr (nodeLast, s2)"
    and m: "macro_result this nodeLast s2 = Inr (r, s')"
    unfolding EvaluateMacro_call_iff [OF assms] by blast
  from m obtain body2 where
    "m_script (nodes s2 this) = Some body2"
    "r = (case FindSymbol_plain s2 body2 (m_value (nodes s2 this)) of
                   Some nodeMacroName \<Rightarrow> Some nodeMacroName
                 | None \<Rightarrow> nodeLast)"
    "s' = (case r of None \<Rightarrow> s2 | Some x \<Rightarrow> SetEvalValue this (m_eval (nodes s2 x)) s2)"
    unfolding macro_result_iff by blast
  with few b p f e Evaluate_returns_last [OF e] show ?R by blast
next
  assume ?R
  then obtain body s1 fuel' nodeLast s2 body2 where
    few: "\<not> length (m_parameters (nodes s this)) < length (m_paramMacro (nodes s this))"
    and b: "m_script (nodes s this) = Some body"
    and p: "bind_parameters nodeEval this body 0 (m_parameters (nodes s this))
               (ClearEvalValues body s) = Inr s1"
    and f: "fuel = Suc fuel'"
    and e: "Evaluate nodeEval fuel' body
               ((if baseName \<noteq> [] then baseName @ ''.'' else baseName) @ m_name (nodes s1 this))
               pass None s1 = Inr (nodeLast, s2)"
    and m: "m_script (nodes s2 this) = Some body2"
       "r = (case FindSymbol_plain s2 body2 (m_value (nodes s2 this)) of
                   Some nodeMacroName \<Rightarrow> Some nodeMacroName
                 | None \<Rightarrow> nodeLast)"
       "s' = (case r of None \<Rightarrow> s2 | Some x \<Rightarrow> SetEvalValue this (m_eval (nodes s2 x)) s2)"
    by blast
  from m have "macro_result this nodeLast s2 = Inr (r, s')"
    unfolding macro_result_iff by blast
  with few b p f e show ?L
    unfolding EvaluateMacro_call_iff [OF assms] by blast
qed

theorem EvaluateMacro_result_witness:
  "m_type (nodes demo_state 22) = ndlTypeMacroCall
   \<and> returned (EvaluateMacro trace_evaluator 1 22 [] ndlPassInitial demo_state) = Some (Some 11)
   \<and> symbol_after (EvaluateMacro trace_evaluator 1 22 [] ndlPassInitial demo_state) 2 ''foo''
       = Some None
   \<and> m_type (nodes demo_state 27) = ndlTypeMacroCall
   \<and> returned (EvaluateMacro trace_evaluator 1 27 [] ndlPassInitial demo_state) = Some (Some 14)
   \<and> symbol_after (EvaluateMacro trace_evaluator 1 27 [] ndlPassInitial demo_state) 3 ''bar''
       = Some (Some 14)
   \<and> trace_of (EvaluateMacro trace_evaluator 1 27 [] ndlPassInitial demo_state)
       = Some [Evaluated 14, Evaluated 13]"
proof -
  have t: "m_type (nodes demo_state 22) = ndlTypeMacroCall"
    by (simp add: demo_state_def demo_nodes_def mk_node_def)
  have e: "returned (EvaluateMacro trace_evaluator 1 22 [] ndlPassInitial demo_state)
             = Some (Some 11)"
    by code_simp
  then obtain s' where
    r: "EvaluateMacro trace_evaluator 1 22 [] ndlPassInitial demo_state = Inr (Some 11, s')"
    by (auto simp: returned_def split: sum.splits)
  have f: "symbol_after (EvaluateMacro trace_evaluator 1 22 [] ndlPassInitial demo_state) 2 ''foo''
             = Some None"
    by code_simp
  have g: "m_type (nodes demo_state 27) = ndlTypeMacroCall
     \<and> returned (EvaluateMacro trace_evaluator 1 27 [] ndlPassInitial demo_state) = Some (Some 14)
     \<and> symbol_after (EvaluateMacro trace_evaluator 1 27 [] ndlPassInitial demo_state) 3 ''bar''
         = Some (Some 14)
     \<and> trace_of (EvaluateMacro trace_evaluator 1 27 [] ndlPassInitial demo_state)
         = Some [Evaluated 14, Evaluated 13]"
    by code_simp
  from iffD1 [OF EvaluateMacro_result [OF t] r] t e f g show ?thesis by blast
qed

subsection \<open>C7: the evaluation loop\<close>

text \<open>
  C7. \<open>NDLScript::Evaluate\<close> does what the spec says of it: it runs the statements in their
  order, all of them or, for a non-null \<open>skipThrough\<close>, those after its first occurrence;
  a macro call goes to \<open>EvaluateMacro\<close> and then to the evaluator's
  \<open>ProcessOptionalParameters\<close>, any other statement to the evaluator's \<open>Evaluate\<close>; the
  result is the last statement run, or \<open>skipThrough\<close> when none was run.
\<close>

theorem Evaluate_refines_spec:
  "Evaluate nodeEval fuel script baseName pass skipThrough s =
     Evaluate_spec nodeEval fuel script baseName pass skipThrough s"
proof (cases skipThrough)
  case None
  then show ?thesis
    by (simp add: Evaluate.simps Evaluate_spec_def spec_remaining_def Evaluate_loop_run
          SetBaseName_def split: sum.splits)
next
  case (Some k)
  then show ?thesis
    by (simp add: Evaluate.simps Evaluate_spec_def spec_remaining_def Evaluate_loop_skip
          Evaluate_loop_run SetBaseName_def split: sum.splits)
qed

theorem Evaluate_refines_spec_witness:
  "spec_remaining (m_statements (scripts demo_state 1)) (Some 28) = [22, 29]
   \<and> returned (Evaluate trace_evaluator 1 1 [] ndlPassInitial (Some 28) demo_state) = Some (Some 29)
   \<and> trace_of (Evaluate trace_evaluator 1 1 [] ndlPassInitial (Some 28) demo_state)
       = Some [Evaluated 11, OptionalProcessed 22, Evaluated 29]
   \<and> returned (Evaluate trace_evaluator 1 1 [] ndlPassInitial (Some 29) demo_state) = Some (Some 29)
   \<and> trace_of (Evaluate trace_evaluator 1 1 [] ndlPassInitial (Some 29) demo_state) = Some []"
proof -
  have a: "spec_remaining (m_statements (scripts demo_state 1)) (Some 28) = [22, 29]"
    by code_simp
  have b: "returned (Evaluate_spec trace_evaluator 1 1 [] ndlPassInitial (Some 28) demo_state)
             = Some (Some 29)"
    by code_simp
  have c: "trace_of (Evaluate_spec trace_evaluator 1 1 [] ndlPassInitial (Some 28) demo_state)
           = Some [Evaluated 11, OptionalProcessed 22, Evaluated 29]"
    by code_simp
  have d: "returned (Evaluate_spec trace_evaluator 1 1 [] ndlPassInitial (Some 29) demo_state)
             = Some (Some 29)"
    by code_simp
  have e: "trace_of (Evaluate_spec trace_evaluator 1 1 [] ndlPassInitial (Some 29) demo_state)
           = Some []"
    by code_simp
  from a b c d e show ?thesis
    by (simp add: Evaluate_refines_spec)
qed

subsection \<open>C8: adding a symbol\<close>

text \<open>
  C8. \<open>AddSymbol\<close> raises the symbol error, naming the symbol and the value it is bound
  to, when the symbol is bound to a node that is not \<open>Undetermined\<close>, and it raises a symbol
  error in no other case; a symbol bound to an \<open>Undetermined\<close> node is bound to the new
  node, and so is a symbol the table does not hold; afterwards the symbol resolves to the
  new node.
\<close>

theorem AddSymbol_cases:
  "(\<forall>n. m_symbols (scripts s script) (symbol_key symbol) = Some (Some n)
          \<and> m_type (nodes s n) \<noteq> ndlTypeUndetermined
        \<longrightarrow> AddSymbol script symbol node s = Inl (SymbolError symbol (m_value (nodes s n))))
   \<and> (\<forall>a b. AddSymbol script symbol node s = Inl (SymbolError a b)
        \<longrightarrow> (\<exists>n. m_symbols (scripts s script) (symbol_key symbol) = Some (Some n)
                 \<and> m_type (nodes s n) \<noteq> ndlTypeUndetermined))
   \<and> (\<forall>n. m_symbols (scripts s script) (symbol_key symbol) = Some (Some n)
          \<and> m_type (nodes s n) = ndlTypeUndetermined
        \<longrightarrow> AddSymbol script symbol node s = Inr (bind_symbol script symbol node s))
   \<and> (m_symbols (scripts s script) (symbol_key symbol) = None
        \<longrightarrow> AddSymbol script symbol node s = Inr (bind_symbol script symbol node s))
   \<and> FindSymbol_plain (bind_symbol script symbol node s) script symbol = node"
  by (auto simp: AddSymbol_def FindSymbol_plain_bind split: option.splits if_splits)

theorem AddSymbol_cases_witness:
  "AddSymbol 2 ''D'' (Some 21) demo_state = Inl (SymbolError ''D'' ''5'')
   \<and> AddSymbol 1 ''U'' (Some 24) demo_state = Inr (bind_symbol 1 ''U'' (Some 24) demo_state)
   \<and> AddSymbol 1 ''fresh'' (Some 24) demo_state = Inr (bind_symbol 1 ''fresh'' (Some 24) demo_state)
   \<and> FindSymbol_plain (bind_symbol 1 ''U'' (Some 24) demo_state) 1 ''u'' = Some 24"
proof -
  have d: "m_symbols (scripts demo_state 2) (symbol_key ''D'') = Some (Some 12)
           \<and> m_type (nodes demo_state 12) \<noteq> ndlTypeUndetermined
           \<and> m_value (nodes demo_state 12) = ''5''"
    by (simp add: demo_state_def demo_scripts_def demo_nodes_def mk_node_def symbol_key_def
          tolower_def)
  have u: "m_symbols (scripts demo_state 1) (symbol_key ''U'') = Some (Some 25)
           \<and> m_type (nodes demo_state 25) = ndlTypeUndetermined"
    by (simp add: demo_state_def demo_scripts_def demo_nodes_def mk_node_def symbol_key_def
          tolower_def)
  have f: "m_symbols (scripts demo_state 1) (symbol_key ''fresh'') = None"
    by (simp add: demo_state_def demo_scripts_def symbol_key_def tolower_def)
  have k: "symbol_key ''U'' = symbol_key ''u''"
    by (simp add: symbol_key_def tolower_def)
  have 1: "AddSymbol 2 ''D'' (Some 21) demo_state = Inl (SymbolError ''D'' ''5'')"
    using AddSymbol_cases [of demo_state 2 "''D''" "Some 21"] d by auto
  have 2: "AddSymbol 1 ''U'' (Some 24) demo_state = Inr (bind_symbol 1 ''U'' (Some 24) demo_state)"
    using AddSymbol_cases [of demo_state 1 "''U''" "Some 24"] u by blast
  have 3: "AddSymbol 1 ''fresh'' (Some 24) demo_state
             = Inr (bind_symbol 1 ''fresh'' (Some 24) demo_state)"
    using AddSymbol_cases [of demo_state 1 "''fresh''" "Some 24"] f by blast
  have 4: "FindSymbol_plain (bind_symbol 1 ''U'' (Some 24) demo_state) 1 ''u'' = Some 24"
    by (simp add: FindSymbol_plain_def bind_symbol_def k)
  from 1 2 3 4 show ?thesis by blast
qed

subsection \<open>C9: GetScalar on a name that resolves to nothing\<close>

text \<open>
  C9. The statement \<open>a = b\<close>, with \<open>b\<close> defined nowhere, leaves a variable node whose value
  names no symbol of its script or of the global script. \<open>GetScalar\<close> on it leaves the loop
  after one round with a null node and reads the node's name through that null pointer
  before it can raise the "Scalar expected" error.
\<close>

theorem GetScalar_null_dereference:
  "GetScalar (Suc fuel) demo_state 23 = Inl NullDereference"
  by (simp add: GetScalar_def FindNode_def FindSymbol_def find_first_of_def demo_state_def
        demo_nodes_def demo_scripts_def mk_node_def symbol_key_def tolower_def s_global_def)

subsection \<open>C10: the role arrays stay duplicate-free\<close>

text \<open>
  C10. \<open>MELScript::SetProperty\<close> on an array that holds the node at most once: after a call
  with \<open>set = true\<close> the node occurs exactly once and a second identical call changes
  nothing; after a call with \<open>set = false\<close> it does not occur, and again a second call
  changes nothing; a call with \<open>set = false\<close> on an array without the node returns the
  array as it was; an array without duplicates has none afterwards.
\<close>

theorem SetProperty_at_most_once:
  assumes "count_list propArray n \<le> 1"
  shows "count_list (SetProperty n propArray True) n = 1
       \<and> SetProperty n (SetProperty n propArray True) True = SetProperty n propArray True
       \<and> count_list (SetProperty n propArray False) n = 0
       \<and> SetProperty n (SetProperty n propArray False) False = SetProperty n propArray False
       \<and> (n \<notin> set propArray \<longrightarrow> SetProperty n propArray False = propArray)
       \<and> (distinct propArray \<longrightarrow>
            distinct (SetProperty n propArray True) \<and> distinct (SetProperty n propArray False))"
proof -
  have a: "count_list (SetProperty n propArray True) n = 1"
  proof (cases "n \<in> set propArray")
    case True
    then have "count_list propArray n \<noteq> 0" by (simp add: count_0)
    with assms True show ?thesis by (simp add: SetProperty_set)
  next
    case False
    then show ?thesis by (simp add: SetProperty_set count_0)
  qed
  have b: "SetProperty n (SetProperty n propArray True) True = SetProperty n propArray True"
    by (simp add: SetProperty_set)
  have c: "count_list (SetProperty n propArray False) n = 0"
    using assms by (simp add: SetProperty_clear count_remove1)
  have d: "SetProperty n (SetProperty n propArray False) False = SetProperty n propArray False"
  proof -
    from c have "n \<notin> set (remove1 n propArray)"
      unfolding SetProperty_clear count_0 .
    then show ?thesis by (simp add: SetProperty_clear remove1_idem)
  qed
  have e: "n \<notin> set propArray \<longrightarrow> SetProperty n propArray False = propArray"
    by (simp add: SetProperty_clear remove1_idem)
  have f: "distinct propArray \<longrightarrow>
            distinct (SetProperty n propArray True) \<and> distinct (SetProperty n propArray False)"
    by (simp add: SetProperty_set SetProperty_clear)
  from a b c d e f show ?thesis by blast
qed

theorem SetProperty_at_most_once_witness:
  "count_list [3, 5, 7 :: nat] 5 \<le> 1
   \<and> SetProperty 5 [3, 5, 7 :: nat] True = [3, 5, 7]
   \<and> SetProperty 9 [3, 5, 7 :: nat] True = [3, 5, 7, 9]
   \<and> SetProperty 5 [3, 5, 7 :: nat] False = [3, 7]
   \<and> count_list (SetProperty 5 [3, 5, 7 :: nat] True) 5 = 1
   \<and> count_list (SetProperty 5 [3, 5, 7 :: nat] False) 5 = 0"
proof -
  have h: "count_list [3, 5, 7 :: nat] 5 \<le> 1" by simp
  have v: "SetProperty 5 [3, 5, 7 :: nat] True = [3, 5, 7]
   \<and> SetProperty 9 [3, 5, 7 :: nat] True = [3, 5, 7, 9]
   \<and> SetProperty 5 [3, 5, 7 :: nat] False = [3, 7]"
    by (simp add: SetProperty_def erase_def)
  from SetProperty_at_most_once [OF h] h v show ?thesis by simp
qed

end
